theory Spec2Isabelle
  imports Main "HOL-Library.Multiset"
begin

section \<open>Syntax trees of the compiler API\<close>

text \<open>
  The transformer of \<^verbatim>\<open>src/index.ts\<close> works on the syntax trees and the type checker
  of the TypeScript compiler API. The part of that API the source reads or builds is
  modelled here: identifiers by their \<^verbatim>\<open>text\<close>, expressions, import declarations,
  the declarations a symbol can resolve to, symbols, types and signatures.

  A JavaScript \<^verbatim>\<open>TypeError\<close> (reading a property of \<^verbatim>\<open>undefined\<close>) is the only
  exception the source can raise after the factory has been built; it is the left
  summand of every result.
\<close>

datatype error = TypeError

definition bindE :: "error + 'a \<Rightarrow> ('a \<Rightarrow> error + 'b) \<Rightarrow> error + 'b" where
  "bindE r f = (case r of Inl e \<Rightarrow> Inl e | Inr x \<Rightarrow> f x)"

text \<open>
  An identifier node carries \<^verbatim>\<open>text\<close> and \<^verbatim>\<open>escapedText\<close>. The compiler stores
  the escaped form, in which a name that starts with two underscores gets a third one
  (\<^verbatim>\<open>escapeLeadingUnderscores\<close>); \<^verbatim>\<open>text\<close> is the name as written. A name is
  modelled by its \<^verbatim>\<open>text\<close>, and \<open>escapedText\<close> computes the other field. The same
  holds for \<^verbatim>\<open>name\<close> and \<^verbatim>\<open>escapedName\<close> of a symbol.
\<close>

definition escapedText :: "string \<Rightarrow> string" where
  "escapedText s = (if take 2 s = ''__'' then CHR ''_'' # s else s)"

datatype expression =
    Identifier string
  | StringLiteral string
  | ImportKeyword
  | PropertyAccessExpression expression string
  | CallExpression expression "expression list"
  | ArrowFunction "string list" expression
  | FunctionExpression "string list"
  | ParenthesizedExpression expression
  | ObjectLiteralExpression "(string \<times> expression) list"
  | OtherExpression nat

text \<open>
  \<open>ArrowFunction ps b\<close> and \<open>FunctionExpression ps\<close> carry the names of their
  parameters; \<open>OtherExpression\<close> stands for every expression kind the source never
  inspects.
\<close>

record import_specifier =
  propertyName :: "string option"
  name :: string

datatype named_bindings =
    NamedImports "import_specifier list"
  | NamespaceImport string

record import_clause =
  clauseName :: "string option"
  namedBindings :: "named_bindings option"

record import_declaration =
  decorators :: "nat list option"
  modifiers :: "nat list option"
  importClause :: "import_clause option"
  moduleSpecifier :: string

datatype heritage_token = ExtendsKeyword | ImplementsKeyword

text \<open>
  The \<^verbatim>\<open>types\<close> of a heritage clause are \<^verbatim>\<open>ExpressionWithTypeArguments\<close> nodes;
  each is modelled by its \<^verbatim>\<open>expression\<close>.
\<close>

record heritage_clause =
  token :: heritage_token
  types :: "expression list"

record variable_declaration =
  declName :: string
  initializer :: "expression option"

datatype node_flags = NoFlags | Let | Const

datatype node =
    ImportDeclaration import_declaration
  | VariableStatement "variable_declaration list" node_flags
  | VariableDeclaration variable_declaration
  | ClassDeclaration "heritage_clause list option"
  | FunctionDeclaration "string list"
  | ExportAssignment expression
  | OtherNode nat

datatype ts_symbol =
  Symbol (symbolName: string) (valueDeclaration: "node option") (parent: "ts_symbol option")

definition escapedName :: "ts_symbol \<Rightarrow> string" where
  "escapedName s = escapedText (symbolName s)"

datatype ts_type = Type (getCallSignatures: "signature list") (getSymbol: "ts_symbol option")
  and signature = Signature (getReturnTypeOfSignature: ts_type)

text \<open>
  The type checker is the oracle of the transform. \<open>getSymbolAtLocation\<close> is asked
  for the module-specifier node of an import of the file being transformed; the node
  is modelled by the specifier's text.
\<close>

record type_checker =
  getSymbolAtLocation :: "string \<Rightarrow> ts_symbol option"
  getExportsOfModule :: "ts_symbol \<Rightarrow> ts_symbol list"
  getTypeOfSymbolAtLocation :: "ts_symbol \<Rightarrow> node \<Rightarrow> ts_type"

record program =
  getTypeChecker :: type_checker

record source_file =
  fileName :: string
  statements :: "node list"

record options =
  onlyRewriteDefaultExports :: bool
  onlyRewriteIfImportCanBeRemoved :: bool
  createComponentWrapperExpression :: expression
  createImportDeclaration :: "string \<Rightarrow> import_declaration option"
  shouldRewrite :: "string \<Rightarrow> string \<Rightarrow> bool"

definition defaultOptions :: options where
  "defaultOptions =
     \<lparr>onlyRewriteDefaultExports = False,
      onlyRewriteIfImportCanBeRemoved = False,
      createComponentWrapperExpression = PropertyAccessExpression (Identifier ''React'') ''lazy'',
      createImportDeclaration = (\<lambda>currentFile. None),
      shouldRewrite = (\<lambda>importSpecifier currentFile. True)\<rparr>"

section \<open>The component classifier\<close>

fun isFunctionValue :: "expression \<Rightarrow> bool" where
  "isFunctionValue (ArrowFunction ps b) = True"
| "isFunctionValue (FunctionExpression ps) = True"
| "isFunctionValue e = False"

fun parameters :: "expression \<Rightarrow> string list" where
  "parameters (ArrowFunction ps b) = ps"
| "parameters (FunctionExpression ps) = ps"
| "parameters e = []"

text \<open>
  \<^verbatim>\<open>getFunction\<close> returns the function node it finds or \<^verbatim>\<open>null\<close>; the caller reads
  only \<^verbatim>\<open>parameters\<close> of that node, so the node is modelled by its parameter list.
  For a variable statement the source reads \<^verbatim>\<open>declarations[0]\<close>, and
  \<^verbatim>\<open>declaration.initializer\<close> of an empty list is a \<^verbatim>\<open>TypeError\<close>.
\<close>

definition functionOfInitializer :: "variable_declaration \<Rightarrow> string list option" where
  "functionOfInitializer declaration =
     (case initializer declaration of
        None \<Rightarrow> None
      | Some e \<Rightarrow> if isFunctionValue e then Some (parameters e) else None)"

fun getFunction :: "node \<Rightarrow> error + string list option" where
  "getFunction (FunctionDeclaration ps) = Inr (Some ps)"
| "getFunction (ExportAssignment e) =
     Inr (if isFunctionValue e then Some (parameters e) else None)"
| "getFunction (VariableStatement ds fl) =
     (case ds of
        [] \<Rightarrow> Inl TypeError
      | declaration # rest \<Rightarrow> Inr (functionOfInitializer declaration))"
| "getFunction (VariableDeclaration declaration) = Inr (functionOfInitializer declaration)"
| "getFunction decl = Inr None"

fun isReactComponentAccess :: "expression \<Rightarrow> bool" where
  "isReactComponentAccess (PropertyAccessExpression (Identifier obj) nm) =
     (escapedText nm = ''Component'' \<and> escapedText obj = ''React'')"
| "isReactComponentAccess t = False"

definition isJsxElement :: "ts_symbol option \<Rightarrow> bool" where
  "isJsxElement returnType =
     (case returnType of
        None \<Rightarrow> False
      | Some r \<Rightarrow>
          escapedName r = ''Element'' \<and>
          (case parent r of None \<Rightarrow> False | Some p \<Rightarrow> escapedName p = ''JSX''))"

definition classifyDeclaration :: "type_checker \<Rightarrow> ts_symbol \<Rightarrow> node \<Rightarrow> error + bool" where
  "classifyDeclaration typeChecker exportedSymbol decl =
     (case decl of
        ClassDeclaration (Some heritageClauses) \<Rightarrow>
          (case find (\<lambda>h. token h = ExtendsKeyword) heritageClauses of
             Some baseClass \<Rightarrow> Inr (find isReactComponentAccess (types baseClass) \<noteq> None)
           | None \<Rightarrow> Inr False)
      | _ \<Rightarrow>
          bindE (getFunction decl) (\<lambda>func.
            case func of
              None \<Rightarrow> Inr False
            | Some ps \<Rightarrow>
                (case getCallSignatures (getTypeOfSymbolAtLocation typeChecker exportedSymbol decl) of
                   [] \<Rightarrow> Inr False
                 | callSignature # others \<Rightarrow>
                     Inr ((length ps = 1 \<or> length ps = 2) \<and>
                          isJsxElement (getSymbol (getReturnTypeOfSignature callSignature))))))"

definition isComponentType :: "string \<Rightarrow> import_declaration \<Rightarrow> type_checker \<Rightarrow> error + bool" where
  "isComponentType identifier importDecl typeChecker =
     (case getSymbolAtLocation typeChecker (moduleSpecifier importDecl) of
        None \<Rightarrow> Inr False
      | Some importSymbol \<Rightarrow>
          (case find (\<lambda>e. symbolName e = identifier) (getExportsOfModule typeChecker importSymbol) of
             None \<Rightarrow> Inr False
           | Some exportedSymbol \<Rightarrow>
               (case valueDeclaration exportedSymbol of
                  None \<Rightarrow> Inr False
                | Some decl \<Rightarrow> classifyDeclaration typeChecker exportedSymbol decl)))"

text \<open>\<^verbatim>\<open>(element.propertyName || element.name).text\<close>\<close>

definition exportedNameOf :: "import_specifier \<Rightarrow> string" where
  "exportedNameOf element = (case propertyName element of Some p \<Rightarrow> p | None \<Rightarrow> name element)"

fun forElements ::
  "import_declaration \<Rightarrow> type_checker \<Rightarrow> import_specifier list \<Rightarrow> string list \<Rightarrow> error + string list"
where
  "forElements importDecl typeChecker [] componentNames = Inr componentNames"
| "forElements importDecl typeChecker (element # rest) componentNames =
     bindE (isComponentType (exportedNameOf element) importDecl typeChecker) (\<lambda>b.
       forElements importDecl typeChecker rest
         (if b then componentNames @ [name element] else componentNames))"

definition getImportedReactComponents ::
  "import_declaration \<Rightarrow> type_checker \<Rightarrow> options \<Rightarrow> error + string list"
where
  "getImportedReactComponents importDecl typeChecker opts =
     (case importClause importDecl of
        None \<Rightarrow> Inr []
      | Some clause \<Rightarrow>
          bindE
            (case clauseName clause of
               None \<Rightarrow> Inr []
             | Some n \<Rightarrow>
                 bindE (isComponentType ''default'' importDecl typeChecker) (\<lambda>b.
                   Inr (if b then [n] else [])))
            (\<lambda>componentNames.
               if onlyRewriteDefaultExports opts then Inr componentNames
               else (case namedBindings clause of
                       Some (NamedImports es) \<Rightarrow> forElements importDecl typeChecker es componentNames
                     | _ \<Rightarrow> Inr componentNames)))"

section \<open>The candidate pre-filter\<close>

text \<open>
  A name is a string of UTF-16 code units. The model covers the code units below 256: a
  \<open>char\<close> stands for the code unit of its number, that is for a character of Latin-1.

  \<^verbatim>\<open>String.prototype.toUpperCase\<close> on one such character: the letters \<^verbatim>\<open>a\<close> to
  \<^verbatim>\<open>z\<close> (97 to 122) and the letters U+00E0 to U+00FE (224 to 254, without the division
  sign 247) move down by 32. Three letters have an upper case that is no single character
  of the range: U+00B5 (181) gives U+039C, U+00DF (223) gives the two characters
  \<^verbatim>\<open>SS\<close>, and U+00FF (255) gives U+0178. For them the model returns the low byte of the
  first code unit of that result, which differs from the letter as the result does, so the
  comparison of a character with its upper case has the value it has in the source. Every
  other character is its own upper case.
\<close>

definition hasOtherUpperCase :: "nat \<Rightarrow> bool" where
  "hasOtherUpperCase n \<longleftrightarrow>
     (97 \<le> n \<and> n \<le> 122) \<or> (224 \<le> n \<and> n \<le> 255 \<and> n \<noteq> 247) \<or> n = 181 \<or> n = 223"

definition toUpperCase :: "char \<Rightarrow> char" where
  "toUpperCase c =
     (let n = (of_char c :: nat) in
      if (97 \<le> n \<and> n \<le> 122) \<or> (224 \<le> n \<and> n \<le> 254 \<and> n \<noteq> 247) then char_of (n - 32)
      else if n = 181 then char_of (156 :: nat)
      else if n = 223 then CHR ''S''
      else if n = 255 then CHR ''x''
      else c)"

text \<open>
  \<^verbatim>\<open>text[0] === text[0].toUpperCase()\<close>: on the empty name \<^verbatim>\<open>text[0]\<close> is
  \<^verbatim>\<open>undefined\<close> and the call raises.
\<close>

definition leadingUpper :: "string \<Rightarrow> error + bool" where
  "leadingUpper text = (case text of [] \<Rightarrow> Inl TypeError | c # cs \<Rightarrow> Inr (c = toUpperCase c))"

fun someE :: "('a \<Rightarrow> error + bool) \<Rightarrow> 'a list \<Rightarrow> error + bool" where
  "someE p [] = Inr False"
| "someE p (x # xs) = bindE (p x) (\<lambda>b. if b then Inr True else someE p xs)"

fun filterE :: "('a \<Rightarrow> error + bool) \<Rightarrow> 'a list \<Rightarrow> error + 'a list" where
  "filterE p [] = Inr []"
| "filterE p (x # xs) =
     bindE (p x) (\<lambda>b. bindE (filterE p xs) (\<lambda>ys. Inr (if b then x # ys else ys)))"

fun mapE :: "('a \<Rightarrow> error + 'b) \<Rightarrow> 'a list \<Rightarrow> error + 'b list" where
  "mapE f [] = Inr []"
| "mapE f (x # xs) = bindE (f x) (\<lambda>y. bindE (mapE f xs) (\<lambda>ys. Inr (y # ys)))"

definition isPotentialComponentImport :: "import_declaration \<Rightarrow> error + bool" where
  "isPotentialComponentImport i =
     (case importClause i of
        None \<Rightarrow> Inr False
      | Some clause \<Rightarrow>
          bindE (case clauseName clause of None \<Rightarrow> Inr False | Some n \<Rightarrow> leadingUpper n)
            (\<lambda>byName.
               if byName then Inr True
               else (case namedBindings clause of
                       Some (NamedImports es) \<Rightarrow> someE (\<lambda>e. leadingUpper (name e)) es
                     | _ \<Rightarrow> Inr False)))"

section \<open>The rewrite of one import declaration\<close>

text \<open>
  \<^verbatim>\<open>visitNode\<close> returns a node or an array of nodes.
\<close>

datatype visited = One node | Many "node list"

definition importCall :: "import_declaration \<Rightarrow> expression" where
  "importCall node = CallExpression ImportKeyword [StringLiteral (moduleSpecifier node)]"

definition thenCall :: "expression \<Rightarrow> string \<Rightarrow> expression" where
  "thenCall call exported =
     CallExpression (PropertyAccessExpression call ''then'')
       [ArrowFunction [''m'']
          (ParenthesizedExpression
             (ObjectLiteralExpression
                [(''default'', PropertyAccessExpression (Identifier ''m'') exported)]))]"

text \<open>
  The body of the loader of component \<open>c\<close>. The source casts \<^verbatim>\<open>namedBindings\<close> to
  \<^verbatim>\<open>NamedImports\<close> and calls \<^verbatim>\<open>elements.find\<close>: without named imports that is a
  \<^verbatim>\<open>TypeError\<close>.
\<close>

definition arrowBody :: "import_declaration \<Rightarrow> import_clause \<Rightarrow> string option \<Rightarrow> string \<Rightarrow> error + expression" where
  "arrowBody node clause defaultImportName c =
     (if defaultImportName \<noteq> Some c then
        (case namedBindings clause of
           Some (NamedImports es) \<Rightarrow>
             (case find (\<lambda>e. escapedText (name e) = c) es of
                Some element \<Rightarrow> Inr (thenCall (importCall node) (escapedText (exportedNameOf element)))
              | None \<Rightarrow> Inr (importCall node))
         | _ \<Rightarrow> Inl TypeError)
      else Inr (importCall node))"

definition additionalStatement ::
  "import_declaration \<Rightarrow> import_clause \<Rightarrow> options \<Rightarrow> string option \<Rightarrow> string \<Rightarrow> error + node"
where
  "additionalStatement node clause opts defaultImportName c =
     bindE (arrowBody node clause defaultImportName c) (\<lambda>body.
       Inr (VariableStatement
              [\<lparr>declName = c,
                initializer =
                  Some (CallExpression (createComponentWrapperExpression opts)
                          [ArrowFunction [] body])\<rparr>]
              Const))"

definition importedNames :: "import_clause \<Rightarrow> string list \<Rightarrow> error + nat" where
  "importedNames clause componentNames =
     bindE
       (case namedBindings clause of
          None \<Rightarrow> Inr 0
        | Some (NamedImports es) \<Rightarrow> Inr (length es)
        | Some (NamespaceImport ns) \<Rightarrow> Inl TypeError)
       (\<lambda>n. Inr ((case clauseName clause of
                     None \<Rightarrow> 0
                   | Some d \<Rightarrow> if escapedText d \<in> set componentNames then 1 else 0) + n))"

fun removeImportNames :: "named_bindings \<Rightarrow> string list \<Rightarrow> error + named_bindings" where
  "removeImportNames (NamedImports es) importNamesToRemove =
     Inr (NamedImports (filter (\<lambda>e. exportedNameOf e \<notin> set importNamesToRemove) es))"
| "removeImportNames (NamespaceImport ns) importNamesToRemove = Inl TypeError"

text \<open>
  \<^verbatim>\<open>defaultName\<close>: the default import's name when it stays in the import, tested for
  truthiness as the source does (the empty string is falsy).
\<close>

definition defaultName :: "string option \<Rightarrow> string list \<Rightarrow> string option" where
  "defaultName defaultImportName componentNames =
     (case defaultImportName of
        None \<Rightarrow> None
      | Some d \<Rightarrow> if d \<noteq> [] \<and> d \<in> set componentNames then None else Some d)"

definition residualImport ::
  "import_declaration \<Rightarrow> import_clause \<Rightarrow> string option \<Rightarrow> string list \<Rightarrow> error + node"
where
  "residualImport node clause defaultImportName componentNames =
     bindE
       (case namedBindings clause of
          None \<Rightarrow> Inr None
        | Some nb \<Rightarrow> bindE (removeImportNames nb componentNames) (\<lambda>r. Inr (Some r)))
       (\<lambda>bindings.
          Inr (ImportDeclaration
                 \<lparr>decorators = decorators node,
                  modifiers = modifiers node,
                  importClause =
                    Some \<lparr>clauseName =
                            (case defaultName defaultImportName componentNames of
                               None \<Rightarrow> None
                             | Some d \<Rightarrow> if d \<noteq> [] then Some d else None),
                          namedBindings = bindings\<rparr>,
                  moduleSpecifier = moduleSpecifier node\<rparr>))"

text \<open>
  \<^verbatim>\<open>potentialComponentImports.indexOf(node)\<close> compares nodes by identity. The list
  holds the top-level imports of the file that pass the pre-filter, which reads only
  the structure of an import, so for a top-level statement membership by structure is
  membership by identity.
\<close>

fun visitNode ::
  "node \<Rightarrow> import_declaration list \<Rightarrow> source_file \<Rightarrow> program \<Rightarrow> options \<Rightarrow> error + visited"
where
  "visitNode (ImportDeclaration node) potentialComponentImports sourceFile prog opts =
     (case importClause node of
        None \<Rightarrow> Inr (One (ImportDeclaration node))
      | Some clause \<Rightarrow>
          if node \<notin> set potentialComponentImports then Inr (One (ImportDeclaration node))
          else if \<not> shouldRewrite opts (moduleSpecifier node) (fileName sourceFile)
          then Inr (One (ImportDeclaration node))
          else
            bindE (getImportedReactComponents node (getTypeChecker prog) opts) (\<lambda>componentNames.
              if componentNames = [] then Inr (One (ImportDeclaration node))
              else
                bindE (mapE (additionalStatement node clause opts
                               (map_option escapedText (clauseName clause))) componentNames)
                  (\<lambda>lazy.
                    let additionalStatements =
                          (case createImportDeclaration opts (fileName sourceFile) of
                             Some additionalImport \<Rightarrow> ImportDeclaration additionalImport # lazy
                           | None \<Rightarrow> lazy)
                    in bindE (importedNames clause componentNames) (\<lambda>n.
                         if n = length componentNames then Inr (Many additionalStatements)
                         else if \<not> onlyRewriteIfImportCanBeRemoved opts then
                           bindE (residualImport node clause
                                    (map_option escapedText (clauseName clause)) componentNames)
                             (\<lambda>r. Inr (Many (additionalStatements @ [r])))
                         else Inr (One (ImportDeclaration node))))))"
| "visitNode n potentialComponentImports sourceFile prog opts = Inr (One n)"

section \<open>The walk over a source file\<close>

fun importDeclarations :: "node list \<Rightarrow> import_declaration list" where
  "importDeclarations [] = []"
| "importDeclarations (ImportDeclaration d # ss) = d # importDeclarations ss"
| "importDeclarations (s # ss) = importDeclarations ss"

text \<open>\<^verbatim>\<open>haystack.indexOf(needle) !== -1\<close>\<close>

fun stringIncludes :: "string \<Rightarrow> string \<Rightarrow> bool" where
  "stringIncludes [] needle = (needle = [])"
| "stringIncludes (c # cs) needle =
     (take (length needle) (c # cs) = needle \<or> stringIncludes cs needle)"

text \<open>
  \<^verbatim>\<open>visitNodeAndChildren\<close> applies \<^verbatim>\<open>visitNode\<close> to a node and then to each of its
  descendants. No descendant of a top-level statement is a member of
  \<^verbatim>\<open>potentialComponentImports\<close>, so \<^verbatim>\<open>visitNode\<close> returns each of them as it is and
  \<^verbatim>\<open>ts.visitEachChild\<close> returns the node it was given; given an array it returns the
  array. The walk below a top-level statement is therefore the identity and
  \<^verbatim>\<open>visitNodeAndChildren\<close> is \<^verbatim>\<open>visitNode\<close> on that statement.
\<close>

definition visitNodeAndChildren ::
  "node \<Rightarrow> import_declaration list \<Rightarrow> source_file \<Rightarrow> program \<Rightarrow> options \<Rightarrow> error + visited"
where
  "visitNodeAndChildren node potentialComponentImports sourceFile prog opts =
     visitNode node potentialComponentImports sourceFile prog opts"

text \<open>
  \<^verbatim>\<open>ts.visitEachChild\<close> on the source file: every statement is visited in order and an
  array result is spliced into the statement list.
\<close>

fun visitEachChild :: "(node \<Rightarrow> error + visited) \<Rightarrow> node list \<Rightarrow> error + node list" where
  "visitEachChild visitor [] = Inr []"
| "visitEachChild visitor (s # ss) =
     bindE (visitor s) (\<lambda>v.
       bindE (visitEachChild visitor ss) (\<lambda>rest.
         Inr ((case v of One n \<Rightarrow> [n] | Many ns \<Rightarrow> ns) @ rest)))"

definition hasReactImport :: "import_declaration list \<Rightarrow> bool" where
  "hasReactImport imports = (find (\<lambda>s. moduleSpecifier s = ''react'') imports \<noteq> None)"

definition visitSourceFile :: "source_file \<Rightarrow> program \<Rightarrow> options \<Rightarrow> error + source_file" where
  "visitSourceFile sourceFile prog opts =
     (let imports = importDeclarations (statements sourceFile) in
      if hasReactImport imports \<and> \<not> stringIncludes (fileName sourceFile) ''.d.ts'' then
        bindE (filterE isPotentialComponentImport imports) (\<lambda>potentialComponentImports.
          if potentialComponentImports \<noteq> [] then
            bindE (visitEachChild
                     (\<lambda>childNode. visitNodeAndChildren childNode potentialComponentImports
                                    sourceFile prog opts)
                     (statements sourceFile))
              (\<lambda>transformed. Inr (sourceFile\<lparr>statements := transformed\<rparr>))
          else Inr sourceFile)
      else Inr sourceFile)"

text \<open>
  \<^verbatim>\<open>transformer\<close>: the factory raises when no program is passed, and otherwise
  returns the transformation of one source file under the merged options.
\<close>

datatype factory_error = NoProgram

definition transformer ::
  "program option \<Rightarrow> options \<Rightarrow> factory_error + (source_file \<Rightarrow> error + source_file)"
where
  "transformer prog opts =
     (case prog of
        None \<Rightarrow> Inl NoProgram
      | Some p \<Rightarrow> Inr (\<lambda>file. visitSourceFile file p opts))"

section \<open>Vocabulary of the specification\<close>

text \<open>
  The names a statement binds in the importing file: the default name, the local names
  of the named imports or the namespace name of an import, and the declared names of a
  variable statement.
\<close>

fun boundNames :: "node \<Rightarrow> string list" where
  "boundNames (ImportDeclaration d) =
     (case importClause d of
        None \<Rightarrow> []
      | Some clause \<Rightarrow>
          (case clauseName clause of None \<Rightarrow> [] | Some n \<Rightarrow> [n]) @
          (case namedBindings clause of
             None \<Rightarrow> []
           | Some (NamedImports es) \<Rightarrow> map name es
           | Some (NamespaceImport ns) \<Rightarrow> [ns]))"
| "boundNames (VariableStatement ds fl) = map declName ds"
| "boundNames n = []"

fun visitedNodes :: "visited \<Rightarrow> node list" where
  "visitedNodes (One n) = [n]"
| "visitedNodes (Many ns) = ns"


definition oracleFails :: "string \<Rightarrow> import_declaration \<Rightarrow> type_checker \<Rightarrow> bool" where
  "oracleFails identifier importDecl typeChecker =
     (case getSymbolAtLocation typeChecker (moduleSpecifier importDecl) of
        None \<Rightarrow> True
      | Some m \<Rightarrow>
          (case find (\<lambda>e. symbolName e = identifier) (getExportsOfModule typeChecker m) of
             None \<Rightarrow> True
           | Some s \<Rightarrow> valueDeclaration s = None))"










text \<open>An import declaration with its named imports replaced, or its default name removed.\<close>

definition withElements ::
  "import_declaration \<Rightarrow> import_clause \<Rightarrow> import_specifier list \<Rightarrow> import_declaration"
where
  "withElements importDecl clause es =
     importDecl\<lparr>importClause := Some (clause\<lparr>namedBindings := Some (NamedImports es)\<rparr>)\<rparr>"

definition withoutDefault :: "import_declaration \<Rightarrow> import_clause \<Rightarrow> import_declaration" where
  "withoutDefault importDecl clause =
     importDecl\<lparr>importClause := Some (clause\<lparr>clauseName := None\<rparr>)\<rparr>"

text \<open>
  The names the pre-filter reads: the default name and the local names of the named
  imports (a namespace import is not read).
\<close>

definition candidateNames :: "import_declaration \<Rightarrow> string list" where
  "candidateNames i =
     (case importClause i of
        None \<Rightarrow> []
      | Some clause \<Rightarrow>
          (case clauseName clause of None \<Rightarrow> [] | Some n \<Rightarrow> [n]) @
          (case namedBindings clause of Some (NamedImports es) \<Rightarrow> map name es | _ \<Rightarrow> []))"

definition differsFromUpperCase :: "string \<Rightarrow> bool" where
  "differsFromUpperCase n = (case n of [] \<Rightarrow> False | c # cs \<Rightarrow> c \<noteq> toUpperCase c)"

text \<open>
  A name whose first character is an upper-case letter: \<^verbatim>\<open>A\<close> to \<^verbatim>\<open>Z\<close> (65 to 90)
  or U+00C0 to U+00DE (192 to 222, without the multiplication sign 215).
\<close>

definition isUpperCaseLetter :: "nat \<Rightarrow> bool" where
  "isUpperCaseLetter n \<longleftrightarrow> (65 \<le> n \<and> n \<le> 90) \<or> (192 \<le> n \<and> n \<le> 222 \<and> n \<noteq> 215)"

definition uppercaseLed :: "string \<Rightarrow> bool" where
  "uppercaseLed n = (case n of [] \<Rightarrow> False | c # cs \<Rightarrow> isUpperCaseLetter (of_char c))"

section \<open>Modules of the test suite\<close>

text \<open>
  \<^verbatim>\<open>component1.tsx\<close> of the test "importing another mix of components and other
  things": a default export that is a string, a class component, an arrow-function
  component and a string constant. A second module, \<^verbatim>\<open>widgets.tsx\<close>, exports a
  default function component, function components whose names start with underscores, the
  arrow function \<^verbatim>\<open>Pair\<close> declared by \<^verbatim>\<open>export const Pair = (props) => ..., other = "123"\<close>
  and a name without value declaration. Every function of the two modules returns a
  \<^verbatim>\<open>JSX.Element\<close>.
\<close>

definition jsxElement :: ts_symbol where
  "jsxElement = Symbol ''Element'' None (Some (Symbol ''JSX'' None None))"

definition functionComponentType :: ts_type where
  "functionComponentType = Type [Signature (Type [] (Some jsxElement))] None"

definition reactComponentClass :: node where
  "reactComponentClass =
     ClassDeclaration
       (Some [\<lparr>token = ExtendsKeyword,
               types = [PropertyAccessExpression (Identifier ''React'') ''Component'']\<rparr>])"

definition arrowComponent :: expression where
  "arrowComponent = ArrowFunction [''props''] (OtherExpression 0)"

definition component1Exports :: "ts_symbol list" where
  "component1Exports =
     [Symbol ''default'' (Some (ExportAssignment (StringLiteral ''123''))) None,
      Symbol ''MyComp1'' (Some reactComponentClass) None,
      Symbol ''MyComp2''
        (Some (VariableDeclaration \<lparr>declName = ''MyComp2'', initializer = Some arrowComponent\<rparr>))
        None,
      Symbol ''MyConst2''
        (Some (VariableDeclaration
                 \<lparr>declName = ''MyConst2'', initializer = Some (StringLiteral ''123'')\<rparr>))
        None]"

text \<open>
  The statement that declares \<^verbatim>\<open>Pair\<close>, and the statement with the two declarations
  in the other order, \<^verbatim>\<open>const other = "123", Pair = (props) => ...\<close>. They are not
  value declarations of a symbol; they are what \<^verbatim>\<open>getFunction\<close> reads when it is
  given the statement.
\<close>

definition pairStatement :: node where
  "pairStatement =
     VariableStatement
       [\<lparr>declName = ''Pair'', initializer = Some arrowComponent\<rparr>,
        \<lparr>declName = ''other'', initializer = Some (StringLiteral ''123'')\<rparr>]
       Const"

definition otherFirstStatement :: node where
  "otherFirstStatement =
     VariableStatement
       [\<lparr>declName = ''other'', initializer = Some (StringLiteral ''123'')\<rparr>,
        \<lparr>declName = ''Pair'', initializer = Some arrowComponent\<rparr>]
       Const"

definition widgetsExports :: "ts_symbol list" where
  "widgetsExports =
     [Symbol ''default'' (Some (FunctionDeclaration [''props''])) None,
      Symbol ''_Foo'' (Some (FunctionDeclaration [''props''])) None,
      Symbol ''__Hidden'' (Some (FunctionDeclaration [''props''])) None,
      Symbol ''Pair''
        (Some (VariableDeclaration \<lparr>declName = ''Pair'', initializer = Some arrowComponent\<rparr>))
        None,
      Symbol ''Props'' None None]"

definition exampleChecker :: type_checker where
  "exampleChecker =
     \<lparr>getSymbolAtLocation =
        (\<lambda>specifier.
           if specifier = ''./component1'' then Some (Symbol ''component1'' None None)
           else if specifier = ''./widgets'' then Some (Symbol ''widgets'' None None)
           else None),
      getExportsOfModule =
        (\<lambda>m. if symbolName m = ''component1'' then component1Exports
             else if symbolName m = ''widgets'' then widgetsExports
             else []),
      getTypeOfSymbolAtLocation =
        (\<lambda>s decl.
           case getFunction decl of
             Inr (Some ps) \<Rightarrow> functionComponentType
           | _ \<Rightarrow> Type [] None)\<rparr>"

definition exampleProgram :: program where
  "exampleProgram = \<lparr>getTypeChecker = exampleChecker\<rparr>"

definition importOf ::
  "string option \<Rightarrow> named_bindings option \<Rightarrow> string \<Rightarrow> import_declaration"
where
  "importOf d nb specifier =
     \<lparr>decorators = None, modifiers = None,
      importClause = Some \<lparr>clauseName = d, namedBindings = nb\<rparr>,
      moduleSpecifier = specifier\<rparr>"

definition unaliased :: "string \<Rightarrow> import_specifier" where
  "unaliased n = \<lparr>propertyName = None, name = n\<rparr>"

text \<open>\<^verbatim>\<open>import * as React from "react";\<close>\<close>

definition reactImport :: import_declaration where
  "reactImport = importOf None (Some (NamespaceImport ''React'')) ''react''"

text \<open>\<^verbatim>\<open>import * as react from "react";\<close>\<close>

definition lowercaseReactImport :: import_declaration where
  "lowercaseReactImport = importOf None (Some (NamespaceImport ''react'')) ''react''"

text \<open>\<^verbatim>\<open>import MyConst1, { MyComp1 } from "./component1";\<close>\<close>

definition constAndComponentImport :: import_declaration where
  "constAndComponentImport =
     importOf (Some ''MyConst1'') (Some (NamedImports [unaliased ''MyComp1''])) ''./component1''"

text \<open>\<^verbatim>\<open>import { __Hidden } from "./widgets";\<close>\<close>

definition hiddenImport :: import_declaration where
  "hiddenImport = importOf None (Some (NamedImports [unaliased ''__Hidden''])) ''./widgets''"

text \<open>\<^verbatim>\<open>import { _Foo } from "./widgets";\<close>\<close>

definition underscoreImport :: import_declaration where
  "underscoreImport = importOf None (Some (NamedImports [unaliased ''_Foo''])) ''./widgets''"

text \<open>\<^verbatim>\<open>import { _Foo, Props } from "./widgets";\<close>\<close>

definition propsImport :: import_declaration where
  "propsImport =
     importOf None (Some (NamedImports [unaliased ''_Foo'', unaliased ''Props''])) ''./widgets''"

text \<open>\<^verbatim>\<open>import $x from "./widgets";\<close>\<close>

definition dollarImport :: import_declaration where
  "dollarImport = importOf (Some ''$x'') None ''./widgets''"

definition component2 :: "node list \<Rightarrow> source_file" where
  "component2 ss = \<lparr>fileName = ''component2.tsx'', statements = ss\<rparr>"

text \<open>\<^verbatim>\<open>import { helper } from "./widgets";\<close>\<close>

definition helperImport :: import_declaration where
  "helperImport = importOf None (Some (NamedImports [unaliased ''helper''])) ''./widgets''"

text \<open>\<^verbatim>\<open>import { MyComp1 as Bar, MyConst2 } from "./component1";\<close>\<close>

definition aliasedImport :: import_declaration where
  "aliasedImport =
     importOf None
       (Some (NamedImports [\<lparr>propertyName = Some ''MyComp1'', name = ''Bar''\<rparr>,
                            unaliased ''MyConst2'']))
       ''./component1''"

text \<open>\<^verbatim>\<open>import Widget, * as All from "./widgets";\<close>\<close>

definition namespaceImport :: import_declaration where
  "namespaceImport = importOf (Some ''Widget'') (Some (NamespaceImport ''All'')) ''./widgets''"

text \<open>
  Three files named \<^verbatim>\<open>component2.tsx\<close>: one that imports \<^verbatim>\<open>_Foo\<close> and binds no
  name with a leading upper-case letter, one whose only candidate name is
  \<^verbatim>\<open>helper\<close>, and one that imports a string and a class component from
  \<^verbatim>\<open>component1\<close>.
\<close>

definition underscoreModule :: source_file where
  "underscoreModule =
     component2 [ImportDeclaration lowercaseReactImport, ImportDeclaration underscoreImport]"

definition helperModule :: source_file where
  "helperModule =
     component2 [ImportDeclaration reactImport, ImportDeclaration helperImport, OtherNode 0]"

definition constAndComponentModule :: source_file where
  "constAndComponentModule =
     component2
       [ImportDeclaration reactImport, ImportDeclaration constAndComponentImport, OtherNode 0]"

text \<open>\<^verbatim>\<open>const local = React.lazy(() => loader);\<close>\<close>

definition lazyConst :: "string \<Rightarrow> expression \<Rightarrow> node" where
  "lazyConst local loader =
     VariableStatement
       [\<lparr>declName = local,
         initializer =
           Some (CallExpression (PropertyAccessExpression (Identifier ''React'') ''lazy'')
                   [ArrowFunction [] loader])\<rparr>]
       Const"

text \<open>An opt-out hook that refuses \<^verbatim>\<open>./component1\<close>.\<close>

definition refuseComponent1 :: options where
  "refuseComponent1 =
     defaultOptions\<lparr>shouldRewrite := (\<lambda>importSpecifier currentFile.
                                        importSpecifier \<noteq> ''./component1'')\<rparr>"

named_theorems fixture

declare jsxElement_def [fixture] functionComponentType_def [fixture]
  reactComponentClass_def [fixture] arrowComponent_def [fixture] component1Exports_def [fixture]
  pairStatement_def [fixture] widgetsExports_def [fixture] exampleChecker_def [fixture]
  exampleProgram_def [fixture] importOf_def [fixture] unaliased_def [fixture]
  reactImport_def [fixture] lowercaseReactImport_def [fixture]
  constAndComponentImport_def [fixture] hiddenImport_def [fixture]
  underscoreImport_def [fixture] propsImport_def [fixture] dollarImport_def [fixture]
  component2_def [fixture] lazyConst_def [fixture] defaultOptions_def [fixture]
  refuseComponent1_def [fixture] helperImport_def [fixture] otherFirstStatement_def [fixture]
  underscoreModule_def [fixture] helperModule_def [fixture]
  constAndComponentModule_def [fixture] aliasedImport_def [fixture]
  namespaceImport_def [fixture]

named_theorems model

declare getImportedReactComponents_def [model] isComponentType_def [model]
  classifyDeclaration_def [model] exportedNameOf_def [model] additionalStatement_def [model]
  arrowBody_def [model] importedNames_def [model] escapedText_def [model] importCall_def [model]
  thenCall_def [model] residualImport_def [model] defaultName_def [model]
  isJsxElement_def [model] escapedName_def [model] functionOfInitializer_def [model]
  visitSourceFile_def [model] visitNodeAndChildren_def [model] hasReactImport_def [model]
  isPotentialComponentImport_def [model] hasOtherUpperCase_def [model]

section \<open>Basic facts\<close>

lemma bindE_simps [simp]:
  "bindE (Inl e) f = Inl e"
  "bindE (Inr x) f = f x"
  by (simp_all add: bindE_def)

lemma escapedText_literal:
  "take 2 t \<noteq> ''__'' \<Longrightarrow> take 3 t \<noteq> ''___'' \<Longrightarrow> escapedText s = t \<longleftrightarrow> s = t"
  by (cases s; cases t) (auto simp: escapedText_def)

lemma escapedText_Component [simp]: "escapedText s = ''Component'' \<longleftrightarrow> s = ''Component''"
  by (rule escapedText_literal) simp_all

lemma escapedText_React [simp]: "escapedText s = ''React'' \<longleftrightarrow> s = ''React''"
  by (rule escapedText_literal) simp_all

lemma escapedText_Element [simp]: "escapedText s = ''Element'' \<longleftrightarrow> s = ''Element''"
  by (rule escapedText_literal) simp_all

lemma escapedText_JSX [simp]: "escapedText s = ''JSX'' \<longleftrightarrow> s = ''JSX''"
  by (rule escapedText_literal) simp_all

lemma escapedText_plain: "take 2 s \<noteq> ''__'' \<Longrightarrow> escapedText s = s"
  by (simp add: escapedText_def)

lemma find_distinct:
  "distinct (map f xs) \<Longrightarrow> e \<in> set xs \<Longrightarrow> find (\<lambda>x. f x = f e) xs = Some e"
  by (induction xs) auto

subsection \<open>The classifier\<close>










lemma isComponentType_importClause_update:
  "isComponentType i (d\<lparr>importClause := c\<rparr>) tc = isComponentType i d tc"
  by (simp add: isComponentType_def)

lemma forElements_importClause_update:
  "forElements (d\<lparr>importClause := c\<rparr>) tc es acc = forElements d tc es acc"
  by (induction es arbitrary: acc) (simp_all add: isComponentType_importClause_update)

lemma oracleFails_not_component:
  "oracleFails i d tc \<Longrightarrow> isComponentType i d tc = Inr False"
  by (auto simp: oracleFails_def isComponentType_def split: option.splits)

lemma forElements_skip:
  "oracleFails (exportedNameOf e) d tc \<Longrightarrow>
     forElements d tc (xs @ e # ys) acc = forElements d tc (xs @ ys) acc"
  by (induction xs arbitrary: acc) (simp_all add: oracleFails_not_component)

subsection \<open>The pre-filter\<close>

lemma leadingUpper_Cons: "leadingUpper (c # cs) = Inr (c = toUpperCase c)"
  by (simp add: leadingUpper_def)

lemma someE_False:
  "\<forall>x\<in>set xs. p x = Inr False \<Longrightarrow> someE p xs = Inr False"
  by (induction xs) simp_all

lemma someE_True:
  "x \<in> set xs \<Longrightarrow> p x = Inr True \<Longrightarrow> \<forall>y\<in>set xs. \<exists>b. p y = Inr b \<Longrightarrow> someE p xs = Inr True"
  by (induction xs) auto

lemma filterE_none:
  "\<forall>x\<in>set xs. p x = Inr False \<Longrightarrow> filterE p xs = Inr []"
  by (induction xs) simp_all

lemma filterE_member:
  "filterE p xs = Inr ys \<Longrightarrow> x \<in> set xs \<Longrightarrow> p x = Inr True \<Longrightarrow> x \<in> set ys"
proof (induction xs arbitrary: ys)
  case Nil
  then show ?case by simp
next
  case (Cons a xs)
  then show ?case
    by (cases "p a"; cases "filterE p xs") (auto split: if_splits)
qed

lemma leadingUpper_differs:
  "differsFromUpperCase n \<Longrightarrow> leadingUpper n = Inr False"
  by (cases n) (simp_all add: differsFromUpperCase_def leadingUpper_def)

lemma isPotentialComponentImport_rejects:
  assumes "list_all differsFromUpperCase (candidateNames i)"
  shows "isPotentialComponentImport i = Inr False"
proof (cases "importClause i")
  case None
  then show ?thesis by (simp add: isPotentialComponentImport_def)
next
  case (Some clause)
  have d: "(case clauseName clause of None \<Rightarrow> Inr False | Some n \<Rightarrow> leadingUpper n) = Inr False"
    using assms Some by (auto simp: candidateNames_def leadingUpper_differs split: option.splits)
  have e: "someE (\<lambda>e. leadingUpper (name e)) es = Inr False"
    if "namedBindings clause = Some (NamedImports es)" for es
    using assms Some that
    by (intro someE_False) (auto simp: candidateNames_def list_all_iff leadingUpper_differs)
  show ?thesis
    using Some d e
    by (simp add: isPotentialComponentImport_def split: option.splits named_bindings.splits)
qed

lemma char_of_differs:
  assumes "k < 256" and "k \<noteq> (of_char c :: nat)"
  shows "char_of k \<noteq> c"
proof -
  have "take_bit 8 k = k" using assms(1) by (simp add: take_bit_eq_mod)
  then show ?thesis using assms(2) by (simp add: char_of_eq_iff)
qed

lemma toUpperCase_fixed_iff:
  "toUpperCase c = c \<longleftrightarrow> \<not> hasOtherUpperCase (of_char c)"
proof (cases "hasOtherUpperCase (of_char c)")
  case True
  let ?n = "of_char c :: nat"
  consider "(97 \<le> ?n \<and> ?n \<le> 122) \<or> (224 \<le> ?n \<and> ?n \<le> 254 \<and> ?n \<noteq> 247)"
    | "?n = 181" | "?n = 223" | "?n = 255"
    using True unfolding hasOtherUpperCase_def by arith
  then have "toUpperCase c \<noteq> c"
  proof cases
    case 1
    then have "?n - 32 < 256" and "?n - 32 \<noteq> ?n" by arith+
    then have "char_of (?n - 32) \<noteq> c" by (rule char_of_differs)
    with 1 show ?thesis by (simp add: toUpperCase_def Let_def)
  next
    case 2
    then have "char_of (156 :: nat) \<noteq> c" by (intro char_of_differs) simp_all
    with 2 show ?thesis by (simp add: toUpperCase_def Let_def)
  next
    case 3
    then have "c \<noteq> CHR ''S''" by auto
    with 3 show ?thesis by (simp add: toUpperCase_def Let_def)
  next
    case 4
    then have "c \<noteq> CHR ''x''" by auto
    with 4 show ?thesis by (simp add: toUpperCase_def Let_def)
  qed
  with True show ?thesis by simp
next
  case False
  then show ?thesis by (auto simp: toUpperCase_def hasOtherUpperCase_def Let_def)
qed

lemma leadingUpper_eval [model]:
  "leadingUpper (c # cs) = Inr (\<not> hasOtherUpperCase (of_char c))"
  using toUpperCase_fixed_iff [of c] by (auto simp: leadingUpper_def)

lemma differsFromUpperCase_eval [model]:
  "differsFromUpperCase (c # cs) \<longleftrightarrow> hasOtherUpperCase (of_char c)"
  using toUpperCase_fixed_iff [of c] by (auto simp: differsFromUpperCase_def)

section \<open>The claims\<close>

subsection \<open>C1: the names bound by the replacement\<close>

text \<open>
  C1. The statements that replace a rewritten import bind exactly the names the import
  bound, as a multiset; the injected wrapper import is not counted.

  The source does not do so on \<^verbatim>\<open>import MyConst1, { MyComp1 } from "./component1"\<close>,
  where the default export is a string and \<^verbatim>\<open>MyComp1\<close> is a class component. The
  default name is not among the component names, so \<^verbatim>\<open>importedNames\<close> counts it as
  0 and is 1, the length of \<^verbatim>\<open>componentNames\<close>; the lazy declaration is returned
  alone and \<^verbatim>\<open>MyConst1\<close> is bound nowhere in the output.
\<close>

theorem non_component_default_is_dropped:
  "visitSourceFile constAndComponentModule exampleProgram defaultOptions =
     Inr (component2
            [ImportDeclaration reactImport,
             lazyConst ''MyComp1'' (thenCall (importCall constAndComponentImport) ''MyComp1''),
             OtherNode 0]) \<and>
   mset (boundNames (ImportDeclaration constAndComponentImport)) = {#''MyConst1'', ''MyComp1''#} \<and>
   mset (boundNames
           (lazyConst ''MyComp1'' (thenCall (importCall constAndComponentImport) ''MyComp1''))) =
     {#''MyComp1''#}"
  by (simp add: fixture model)

subsection \<open>C2: the residual import\<close>

text \<open>
  C2. A rewritten import is followed by a residual import if and only if one of its
  bindings is not classified as a component, and the residual import keeps exactly
  those bindings.

  On the import above the default binding is not classified, and the source returns the
  lazy declaration of \<^verbatim>\<open>MyComp1\<close> with no import declaration after it.
\<close>

theorem no_residual_for_unclassified_default:
  "isComponentType ''default'' constAndComponentImport exampleChecker = Inr False \<and>
   visitNode (ImportDeclaration constAndComponentImport) [constAndComponentImport]
       constAndComponentModule exampleProgram defaultOptions =
     Inr (Many [lazyConst ''MyComp1''
                  (thenCall (importCall constAndComponentImport) ''MyComp1'')]) \<and>
   importDeclarations
     [lazyConst ''MyComp1'' (thenCall (importCall constAndComponentImport) ''MyComp1'')] = []"
  by (simp add: fixture model)

text \<open>
  A second defect shows on \<^verbatim>\<open>import { MyComp1 as Bar, MyConst2 } from "./component1"\<close>:
  \<^verbatim>\<open>removeImportNames\<close> compares the exported names of the elements with the local
  names in \<^verbatim>\<open>componentNames\<close>, so the aliased component stays in the residual import
  and \<^verbatim>\<open>Bar\<close> is bound twice.
\<close>

lemma aliased_component_stays_in_residual:
  "visitNode (ImportDeclaration aliasedImport) [aliasedImport]
       (component2 [ImportDeclaration reactImport, ImportDeclaration aliasedImport])
       exampleProgram defaultOptions =
     Inr (Many [lazyConst ''Bar'' (thenCall (importCall aliasedImport) ''MyComp1''),
                ImportDeclaration aliasedImport])"
  by (simp add: fixture model)

subsection \<open>C3: the classifier\<close>






subsection \<open>C4: the bail-out policy\<close>

text \<open>
  C4. With \<^verbatim>\<open>onlyRewriteIfImportCanBeRemoved\<close> set, an import with a binding that is
  not classified as a component is returned as it is.

  On \<^verbatim>\<open>import MyConst1, { MyComp1 } from "./component1"\<close> the default binding is not
  classified, yet the source returns the lazy declaration of \<^verbatim>\<open>MyComp1\<close> in place of
  the import: the count \<^verbatim>\<open>importedNames\<close> leaves the default name out.
\<close>

theorem bail_out_misses_unclassified_default:
  "isComponentType ''default'' constAndComponentImport exampleChecker = Inr False \<and>
   visitNode (ImportDeclaration constAndComponentImport) [constAndComponentImport]
       constAndComponentModule exampleProgram
       (defaultOptions\<lparr>onlyRewriteIfImportCanBeRemoved := True\<rparr>) =
     Inr (Many [lazyConst ''MyComp1''
                  (thenCall (importCall constAndComponentImport) ''MyComp1'')])"
  by (simp add: fixture model)

text \<open>
  The count also fails on \<^verbatim>\<open>import Widget, * as All from "./widgets"\<close> with a default
  export that is a component: the source casts the namespace import to
  \<^verbatim>\<open>NamedImports\<close> and reads \<^verbatim>\<open>elements.length\<close> of \<^verbatim>\<open>undefined\<close>.
\<close>

lemma namespace_import_raises:
  "visitNode (ImportDeclaration namespaceImport) [namespaceImport]
       (component2 [ImportDeclaration reactImport, ImportDeclaration namespaceImport])
       exampleProgram defaultOptions = Inl TypeError"
  by (simp add: fixture model)

subsection \<open>C5: the lazy binding\<close>

text \<open>
  C5. The lazy binding of a default import loads the bare dynamic import; that of a named
  import is named by the local name and appends a \<^verbatim>\<open>then\<close> continuation that reads
  the exported name off the module.

  The source looks the element up by comparing \<^verbatim>\<open>escapedText\<close> of the element name
  with \<^verbatim>\<open>text\<close> of the component name. For \<^verbatim>\<open>import { __Hidden } from "./widgets"\<close>
  the two differ, no element is found, and the named import gets the loader of a default
  import.
\<close>

theorem double_underscore_named_import_loader:
  "isComponentType ''__Hidden'' hiddenImport exampleChecker = Inr True \<and>
   visitNode (ImportDeclaration hiddenImport) [hiddenImport]
       (component2 [ImportDeclaration reactImport, ImportDeclaration hiddenImport])
       exampleProgram defaultOptions =
     Inr (Many [lazyConst ''__Hidden'' (importCall hiddenImport)])"
  by (simp add: fixture model)

text \<open>
  For names that do not start with two underscores \<^verbatim>\<open>text\<close> and \<^verbatim>\<open>escapedText\<close>
  agree, and the lazy binding is the one C5 describes.
\<close>

lemma default_import_loader:
  assumes "clauseName clause = Some d" and "take 2 d \<noteq> ''__''"
  shows "additionalStatement node clause opts (map_option escapedText (clauseName clause)) d =
           Inr (VariableStatement
                  [\<lparr>declName = d,
                    initializer =
                      Some (CallExpression (createComponentWrapperExpression opts)
                              [ArrowFunction [] (importCall node)])\<rparr>]
                  Const)"
  using assms by (simp add: additionalStatement_def arrowBody_def escapedText_plain)

lemma named_import_loader:
  assumes "namedBindings clause = Some (NamedImports es)" and "e \<in> set es"
    and "distinct (map name es)" and "\<forall>x\<in>set es. take 2 (name x) \<noteq> ''__''"
    and "take 2 (exportedNameOf e) \<noteq> ''__''"
    and "defaultImportName \<noteq> Some (name e)"
  shows "additionalStatement node clause opts defaultImportName (name e) =
           Inr (VariableStatement
                  [\<lparr>declName = name e,
                    initializer =
                      Some (CallExpression (createComponentWrapperExpression opts)
                              [ArrowFunction []
                                 (thenCall (importCall node) (exportedNameOf e))])\<rparr>]
                  Const)"
proof -
  have "find (\<lambda>x. escapedText (name x) = name e) es = find (\<lambda>x. name x = name e) es"
    using assms(4) by (intro find_cong) (simp_all add: escapedText_plain)
  also have "\<dots> = Some e"
    using assms(2,3) by (simp add: find_distinct)
  finally show ?thesis
    using assms(1,5,6)
    by (simp add: additionalStatement_def arrowBody_def escapedText_plain)
qed

subsection \<open>C6: the gate\<close>

text \<open>
  C6. A source file that has no import of \<^verbatim>\<open>react\<close>, or is a declaration file, or has
  no import that binds a name with a leading upper-case letter, is returned as it is and
  the classifier is not used.

  The source comments its filter as "any import which imports a variable with leading
  uppercase char" and tests \<^verbatim>\<open>text[0] === text[0].toUpperCase()\<close>, which is also true
  of a character without case. The file
  \<^verbatim>\<open>import * as react from "react"; import { _Foo } from "./widgets";\<close> binds no name
  with a leading upper-case letter; its import of the function component \<^verbatim>\<open>_Foo\<close>
  passes the filter, is classified and is rewritten.
\<close>

theorem caseless_import_is_rewritten:
  "hasReactImport (importDeclarations (statements underscoreModule)) \<and>
   \<not> list_ex uppercaseLed (concat (map boundNames (statements underscoreModule))) \<and>
   visitSourceFile underscoreModule exampleProgram defaultOptions =
     Inr (component2
            [ImportDeclaration lowercaseReactImport,
             lazyConst ''_Foo'' (thenCall (importCall underscoreImport) ''_Foo'')]) \<and>
   visitSourceFile underscoreModule exampleProgram defaultOptions \<noteq> Inr underscoreModule"
  by (simp add: fixture model uppercaseLed_def isUpperCaseLetter_def)

text \<open>
  The source does return the file as it is when it has no import of \<^verbatim>\<open>react\<close>, when
  its name contains \<^verbatim>\<open>.d.ts\<close>, and when every default and named import binding
  starts with a lower-case letter; then no program and no option changes the result.
\<close>

lemma gate_returns_input:
  assumes "\<not> hasReactImport (importDeclarations (statements sourceFile)) \<or>
           stringIncludes (fileName sourceFile) ''.d.ts'' \<or>
           list_all differsFromUpperCase
             (concat (map candidateNames (importDeclarations (statements sourceFile))))"
  shows "visitSourceFile sourceFile prog opts = Inr sourceFile \<and>
         bindE (visitSourceFile sourceFile prog opts) (\<lambda>out. visitSourceFile out prog opts) =
           Inr sourceFile"
proof -
  have "visitSourceFile sourceFile prog opts = Inr sourceFile"
  proof (cases "hasReactImport (importDeclarations (statements sourceFile)) \<and>
                \<not> stringIncludes (fileName sourceFile) ''.d.ts''")
    case True
    with assms have "\<forall>i\<in>set (importDeclarations (statements sourceFile)).
                       list_all differsFromUpperCase (candidateNames i)"
      by (auto simp: list_all_iff)
    then have "filterE isPotentialComponentImport (importDeclarations (statements sourceFile)) =
                 Inr []"
      by (intro filterE_none) (simp add: isPotentialComponentImport_rejects)
    then show ?thesis by (simp add: visitSourceFile_def Let_def)
  next
    case False
    then show ?thesis by (auto simp: visitSourceFile_def Let_def)
  qed
  then show ?thesis by simp
qed

lemma gate_returns_input_example:
  "list_all differsFromUpperCase
     (concat (map candidateNames (importDeclarations (statements helperModule)))) \<and>
   hasReactImport (importDeclarations (statements helperModule)) \<and>
   \<not> stringIncludes (fileName helperModule) ''.d.ts'' \<and>
   visitSourceFile helperModule exampleProgram defaultOptions = Inr helperModule"
proof -
  have h: "list_all differsFromUpperCase
             (concat (map candidateNames (importDeclarations (statements helperModule))))"
    by (simp add: fixture candidateNames_def model)
  have r: "hasReactImport (importDeclarations (statements helperModule))"
    by (simp add: fixture hasReactImport_def)
  have d: "\<not> stringIncludes (fileName helperModule) ''.d.ts''"
    by (simp add: fixture)
  have "visitSourceFile helperModule exampleProgram defaultOptions = Inr helperModule"
    using gate_returns_input [of helperModule exampleProgram defaultOptions] h by blast
  with h r d show ?thesis by simp
qed

subsection \<open>C7: the opt-out hook\<close>

text \<open>
  C7. When \<^verbatim>\<open>shouldRewrite\<close> returns false for the specifier of an import and the
  importing file, the import is returned as it is, whatever the program and its type
  checker would classify.
\<close>

theorem shouldRewrite_false_unrewritten:
  assumes "\<not> shouldRewrite opts (moduleSpecifier node) (fileName sourceFile)"
  shows "visitNode (ImportDeclaration node) potentialComponentImports sourceFile prog opts =
           Inr (One (ImportDeclaration node))"
  using assms by (simp split: option.splits)

theorem shouldRewrite_false_unrewritten_witness:
  "\<not> shouldRewrite refuseComponent1 (moduleSpecifier constAndComponentImport)
       (fileName constAndComponentModule) \<and>
   visitNode (ImportDeclaration constAndComponentImport) [constAndComponentImport]
       constAndComponentModule exampleProgram refuseComponent1 =
     Inr (One (ImportDeclaration constAndComponentImport))"
proof -
  have h: "\<not> shouldRewrite refuseComponent1 (moduleSpecifier constAndComponentImport)
              (fileName constAndComponentModule)"
    by (simp add: fixture)
  show ?thesis
    using h shouldRewrite_false_unrewritten [OF h] by simp
qed

subsection \<open>C8: names the oracle does not resolve\<close>

text \<open>
  C8. When the oracle fails on a name (the specifier has no symbol, the module has no
  export of that name, or the symbol has no value declaration) the classifier returns
  false and raises nothing, and the component names of the import are those of the import
  without that binding: the other bindings are classified as before.
\<close>

theorem unresolved_is_not_component:
  assumes "oracleFails identifier importDecl typeChecker"
  shows "isComponentType identifier importDecl typeChecker = Inr False \<and>
         (\<forall>clause xs e ys.
            importClause importDecl = Some clause \<and>
            namedBindings clause = Some (NamedImports (xs @ e # ys)) \<and>
            exportedNameOf e = identifier \<longrightarrow>
              getImportedReactComponents importDecl typeChecker opts =
              getImportedReactComponents (withElements importDecl clause (xs @ ys))
                typeChecker opts) \<and>
         (\<forall>clause n.
            importClause importDecl = Some clause \<and> clauseName clause = Some n \<and>
            identifier = ''default'' \<longrightarrow>
              getImportedReactComponents importDecl typeChecker opts =
              getImportedReactComponents (withoutDefault importDecl clause) typeChecker opts)"
proof (intro conjI allI impI)
  show "isComponentType identifier importDecl typeChecker = Inr False"
    using assms by (rule oracleFails_not_component)
next
  fix clause xs e ys
  assume h: "importClause importDecl = Some clause \<and>
            namedBindings clause = Some (NamedImports (xs @ e # ys)) \<and>
            exportedNameOf e = identifier"
  have f: "oracleFails (exportedNameOf e) importDecl typeChecker" using assms h by simp
  show "getImportedReactComponents importDecl typeChecker opts =
        getImportedReactComponents (withElements importDecl clause (xs @ ys)) typeChecker opts"
    using h forElements_skip [OF f, of xs ys]
    by (simp add: getImportedReactComponents_def withElements_def
          isComponentType_importClause_update forElements_importClause_update
          split: option.splits)
next
  fix clause n
  assume h: "importClause importDecl = Some clause \<and> clauseName clause = Some n \<and>
            identifier = ''default''"
  have f: "isComponentType ''default'' importDecl typeChecker = Inr False"
    using assms h by (simp add: oracleFails_not_component)
  show "getImportedReactComponents importDecl typeChecker opts =
        getImportedReactComponents (withoutDefault importDecl clause) typeChecker opts"
    using h f
    by (simp add: getImportedReactComponents_def withoutDefault_def
          isComponentType_importClause_update forElements_importClause_update
          split: option.splits named_bindings.splits)
qed

theorem unresolved_is_not_component_witness:
  "oracleFails ''Props'' propsImport exampleChecker \<and>
   isComponentType ''Props'' propsImport exampleChecker = Inr False \<and>
   getImportedReactComponents propsImport exampleChecker defaultOptions = Inr [''_Foo''] \<and>
   visitNode (ImportDeclaration propsImport) [propsImport]
       (component2 [ImportDeclaration reactImport, ImportDeclaration propsImport])
       exampleProgram defaultOptions =
     Inr (Many [lazyConst ''_Foo'' (thenCall (importCall propsImport) ''_Foo''),
                ImportDeclaration
                  (importOf None (Some (NamedImports [unaliased ''Props''])) ''./widgets'')])"
proof -
  have h: "oracleFails ''Props'' propsImport exampleChecker"
    by (simp add: fixture oracleFails_def)
  have c: "importClause propsImport =
             Some \<lparr>clauseName = None,
                   namedBindings = Some (NamedImports ([unaliased ''_Foo''] @ unaliased ''Props'' # []))\<rparr>"
    by (simp add: fixture)
  have e: "exportedNameOf (unaliased ''Props'') = ''Props''"
    by (simp add: exportedNameOf_def unaliased_def)
  note t = unresolved_is_not_component [OF h, of defaultOptions]
  have a: "isComponentType ''Props'' propsImport exampleChecker = Inr False"
    using t by simp
  have b: "getImportedReactComponents propsImport exampleChecker defaultOptions =
            getImportedReactComponents
              (withElements propsImport
                 \<lparr>clauseName = None,
                   namedBindings = Some (NamedImports ([unaliased ''_Foo''] @ unaliased ''Props'' # []))\<rparr>
                 ([unaliased ''_Foo''] @ []))
              exampleChecker defaultOptions"
    using t [THEN conjunct2, THEN conjunct1, rule_format,
             of "\<lparr>clauseName = None,
                   namedBindings = Some (NamedImports ([unaliased ''_Foo''] @ unaliased ''Props'' # []))\<rparr>"
                "[unaliased ''_Foo'']" "unaliased ''Props''" "[]"] c e
    by simp
  have g: "getImportedReactComponents propsImport exampleChecker defaultOptions = Inr [''_Foo'']"
    unfolding b by (simp add: fixture model withElements_def)
  have v: "visitNode (ImportDeclaration propsImport) [propsImport]
       (component2 [ImportDeclaration reactImport, ImportDeclaration propsImport])
       exampleProgram defaultOptions =
     Inr (Many [lazyConst ''_Foo'' (thenCall (importCall propsImport) ''_Foo''),
                ImportDeclaration
                  (importOf None (Some (NamedImports [unaliased ''Props''])) ''./widgets'')])"
    by (simp add: fixture model)
  show ?thesis using h a g v by simp
qed

subsection \<open>C9: characters without case pass the pre-filter\<close>

text \<open>
  C9. The pre-filter accepts an import as soon as the first character of its default name
  or of one of its named imports equals its own upper case, so a name led by an
  underscore, a dollar sign or a digit is accepted, and the import is kept in the list of
  candidates that are classified.
\<close>

theorem prefilter_accepts_own_upper_case:
  assumes "importClause i = Some clause" and "toUpperCase c = c"
    and "clauseName clause = Some (c # cs) \<or>
         (clauseName clause \<noteq> Some [] \<and>
          (\<exists>es e. namedBindings clause = Some (NamedImports es) \<and> e \<in> set es \<and>
                  name e = c # cs \<and> [] \<notin> set (map name es)))"
  shows "isPotentialComponentImport i = Inr True \<and>
         (\<forall>decls ps. i \<in> set decls \<and> filterE isPotentialComponentImport decls = Inr ps
            \<longrightarrow> i \<in> set ps)"
proof -
  have p: "isPotentialComponentImport i = Inr True"
    using assms(3)
  proof
    assume "clauseName clause = Some (c # cs)"
    then show ?thesis
      using assms(1,2) by (simp add: isPotentialComponentImport_def leadingUpper_Cons)
  next
    assume h: "clauseName clause \<noteq> Some [] \<and>
          (\<exists>es e. namedBindings clause = Some (NamedImports es) \<and> e \<in> set es \<and>
                  name e = c # cs \<and> [] \<notin> set (map name es))"
    then obtain es e where es: "namedBindings clause = Some (NamedImports es)" "e \<in> set es"
      "name e = c # cs" "[] \<notin> set (map name es)" by blast
    have "\<forall>y\<in>set es. \<exists>b. leadingUpper (name y) = Inr b"
    proof
      fix y assume "y \<in> set es"
      with es(4) have "name y \<noteq> []" by force
      then show "\<exists>b. leadingUpper (name y) = Inr b"
        by (cases "name y") (simp_all add: leadingUpper_Cons)
    qed
    then have s: "someE (\<lambda>e. leadingUpper (name e)) es = Inr True"
      using es assms(2) by (intro someE_True [of e]) (simp_all add: leadingUpper_Cons)
    obtain b where b:
      "(case clauseName clause of None \<Rightarrow> Inr False | Some n \<Rightarrow> leadingUpper n) = Inr b"
      using h by (cases "clauseName clause"; cases "the (clauseName clause)")
                 (auto simp: leadingUpper_Cons)
    show ?thesis
      using assms(1) es(1) s b by (simp add: isPotentialComponentImport_def)
  qed
  show ?thesis
  proof (intro conjI allI impI)
    show "isPotentialComponentImport i = Inr True" by (rule p)
  next
    fix decls ps
    assume "i \<in> set decls \<and> filterE isPotentialComponentImport decls = Inr ps"
    then show "i \<in> set ps"
      using filterE_member [of isPotentialComponentImport decls ps i] p by simp
  qed
qed

theorem prefilter_accepts_own_upper_case_witness:
  "toUpperCase (CHR ''_'') = CHR ''_'' \<and> toUpperCase (CHR ''$'') = CHR ''$'' \<and>
   toUpperCase (CHR ''7'') = CHR ''7'' \<and>
   isPotentialComponentImport underscoreImport = Inr True \<and>
   isPotentialComponentImport dollarImport = Inr True \<and>
   filterE isPotentialComponentImport [lowercaseReactImport, underscoreImport] =
     Inr [underscoreImport]"
proof -
  have u: "toUpperCase (CHR ''_'') = CHR ''_''" and d: "toUpperCase (CHR ''$'') = CHR ''$''"
    and s: "toUpperCase (CHR ''7'') = CHR ''7''"
    by (simp_all add: toUpperCase_fixed_iff hasOtherUpperCase_def)
  have 1: "importClause underscoreImport =
             Some \<lparr>clauseName = None,
                   namedBindings = Some (NamedImports [unaliased ''_Foo''])\<rparr>"
    by (simp add: fixture)
  have 2: "importClause dollarImport = Some \<lparr>clauseName = Some ''$x'', namedBindings = None\<rparr>"
    by (simp add: fixture)
  have a: "isPotentialComponentImport underscoreImport = Inr True"
    using prefilter_accepts_own_upper_case [OF 1 u, of "''Foo''"] by (simp add: fixture)
  have b: "isPotentialComponentImport dollarImport = Inr True"
    using prefilter_accepts_own_upper_case [OF 2 d, of "''x''"] by simp
  have c: "filterE isPotentialComponentImport [lowercaseReactImport, underscoreImport] =
             Inr [underscoreImport]"
    using a by (simp add: lowercaseReactImport_def importOf_def isPotentialComponentImport_def)
  show ?thesis using u d s a b c by simp
qed

subsection \<open>C10: only the first declaration of a variable statement is read\<close>



end
